theory Spec2Isabelle
  imports Complex_Main "HOL-Library.Sublist"
begin

section \<open>setup-fpm: a shallow embedding of \<open>src/index.js\<close>\<close>

text \<open>
  The action reads three inputs (\<open>github-token\<close>, \<open>fpm-version\<close>, \<open>fpm-repository\<close>),
  the host's \<open>os.arch()\<close> and \<open>process.platform\<close>, downloads a release binary of fpm and
  puts it on the PATH; on macOS arm64 it builds fpm from source when no binary exists.

  A JavaScript string is modelled as a \<open>string\<close> (a list of 8-bit characters): the model
  covers the strings whose UTF-16 code units are all below 256.
  Every call of an external collaborator (\<open>@actions/core\<close>, \<open>tool-cache\<close>, \<open>io\<close>, \<open>exec\<close>,
  the release query) is recorded as an \<open>event\<close>; a function of the source that has effects
  returns the list of its events, in the order they happen, next to its value.
  \<open>console.log\<close> only prints and is left out; \<open>core.setFailed\<close> and \<open>core.addPath\<close>
  record and return, they do not throw.
\<close>

subsection \<open>Strings\<close>

text \<open>
  \<open>s.replace(pat, rep)\<close> with a string pattern: only the first occurrence of \<open>pat\<close> is
  replaced, wherever it stands (\<open>rep\<close> holds no \<open>$\<close> pattern in this program).
\<close>

fun js_replace :: "string \<Rightarrow> string \<Rightarrow> string \<Rightarrow> string" where
  "js_replace pat rep [] = (if pat = [] then rep else [])"
| "js_replace pat rep (c # cs) =
     (if prefix pat (c # cs) then rep @ drop (length pat) (c # cs)
      else c # js_replace pat rep cs)"

text \<open>\<open>s.split(sep)\<close> for a one-character separator; \<open>''''.split('.')\<close> is \<open>['''']\<close>.\<close>

fun js_split :: "char \<Rightarrow> string \<Rightarrow> string list" where
  "js_split sep [] = [[]]"
| "js_split sep (c # cs) =
     (if c = sep then [] # js_split sep cs
      else (case js_split sep cs of
              [] \<Rightarrow> [[c]]
            | p # ps \<Rightarrow> (c # p) # ps))"

text \<open>\<open>xs[i]\<close>: \<open>undefined\<close> (here \<open>None\<close>) past the end of the array.\<close>

definition js_index :: "'a list \<Rightarrow> nat \<Rightarrow> 'a option" where
  "js_index xs i = (if i < length xs then Some (xs ! i) else None)"

text \<open>A number in a template literal: its decimal digits.\<close>

fun string_of_nat :: "nat \<Rightarrow> string" where
  "string_of_nat n =
     (if n < 10 then [''0123456789'' ! n]
      else string_of_nat (n div 10) @ [''0123456789'' ! (n mod 10)])"

declare string_of_nat.simps [simp del]

subsection \<open>Effects\<close>

text \<open>
  The options of \<open>exec.exec\<close> that the program sets: \<open>silent\<close>, \<open>cwd\<close> and the \<open>FC\<close>
  entry it adds to the environment.
\<close>

record exec_options =
  silent :: bool
  cwd :: "string option"
  env_FC :: "string option"

definition no_options :: exec_options where
  "no_options = \<lparr>silent = False, cwd = None, env_FC = None\<rparr>"

datatype event =
    SetFailed string
  | Request string
  | Download string
  | Exec string "string list" exec_options
  | Mv string string
  | MkdirP string
  | ExtractTar string string
  | RmRF string
  | AddPath string

text \<open>An awaited call either returns a value or throws an error, of which only the message is read.\<close>

datatype 'a outcome = Throws string | Returns 'a

subsection \<open>\<open>getFPMFilename\<close> (lines 153-185)\<close>

text \<open>
  The fourth parameter defaults to the empty string, which is also the only falsy string:
  a call with three arguments is \<open>getFPMFilename v p a ''''\<close>.
  \<open>core.setFailed\<close> records the failure and returns; the function goes on and returns the
  filename built so far.
\<close>

definition getFPMFilename :: "string \<Rightarrow> string \<Rightarrow> string \<Rightarrow> string \<Rightarrow> event list \<times> string" where
  "getFPMFilename fpmVersion platform arch compiler =
     (let filename0 = ''fpm-'' @ js_replace ''v'' '''' fpmVersion @ ''-'';
          fpmArch = (if arch = ''arm64'' then ''arm64''
                     else if arch = ''x64'' then ''x86_64'' else ''x86_64'');
          (t, filename1) =
            (if platform = ''linux'' then ([], filename0 @ ''linux-'' @ fpmArch)
             else if platform = ''darwin'' then ([], filename0 @ ''macos-'' @ fpmArch)
             else if platform = ''win32'' then ([], filename0 @ ''windows-'' @ fpmArch)
             else ([SetFailed ''Unknown platform''], filename0));
          filename2 = (if compiler \<noteq> [] then filename1 @ ''-'' @ compiler else filename1);
          filename3 = (if platform = ''win32'' then filename2 @ ''.exe'' else filename2)
      in (t, filename3))"

subsection \<open>\<open>Number(s)\<close> on a string\<close>

text \<open>
  \<open>versionParts\<close> is \<open>versionNum.split('.').map(Number)\<close>. \<open>Number\<close> applied to a string
  follows the grammar \<open>StringNumericLiteral\<close> of ECMAScript: white space is trimmed at both
  ends, the empty string is \<open>0\<close>, then come a signed decimal literal (digits, an optional
  fraction, an optional exponent, or \<open>Infinity\<close>) or an unsigned literal in base 16, 8 or 2;
  everything else is \<open>NaN\<close>.

  \<open>Fin r\<close> holds the mathematical value \<open>r\<close> of the literal. The number that JavaScript
  gets is the IEEE double nearest to \<open>r\<close> (ties to even, as Node.js rounds); the two
  comparisons the program makes are defined on \<open>r\<close> so that they say what they say of that
  double.
\<close>

datatype jsnum = NaN | Fin rat | PosInf | NegInf

definition isDigit :: "char \<Rightarrow> bool" where
  "isDigit c = (48 \<le> (of_char c :: nat) \<and> (of_char c :: nat) \<le> 57)"

definition isHexDigit :: "char \<Rightarrow> bool" where
  "isHexDigit c =
     (isDigit c \<or> (97 \<le> (of_char c :: nat) \<and> (of_char c :: nat) \<le> 102)
      \<or> (65 \<le> (of_char c :: nat) \<and> (of_char c :: nat) \<le> 70))"

definition isOctalDigit :: "char \<Rightarrow> bool" where
  "isOctalDigit c = (48 \<le> (of_char c :: nat) \<and> (of_char c :: nat) \<le> 55)"

definition isBinaryDigit :: "char \<Rightarrow> bool" where
  "isBinaryDigit c = (c = CHR ''0'' \<or> c = CHR ''1'')"

definition digitVal :: "char \<Rightarrow> nat" where
  "digitVal c =
     (let n = (of_char c :: nat)
      in if 97 \<le> n then n - 87 else if 65 \<le> n then n - 55 else n - 48)"

definition digitsVal :: "nat \<Rightarrow> string \<Rightarrow> nat" where
  "digitsVal base ds = foldl (\<lambda>n c. base * n + digitVal c) 0 ds"

text \<open>
  \<open>StrWhiteSpaceChar\<close> below 256: TAB, LF, VT, FF, CR, SP and NBSP.
\<close>

definition isWhiteSpace :: "char \<Rightarrow> bool" where
  "isWhiteSpace c = ((of_char c :: nat) \<in> {9, 10, 11, 12, 13, 32, 160})"

definition trimString :: "string \<Rightarrow> string" where
  "trimString s = rev (dropWhile isWhiteSpace (rev (dropWhile isWhiteSpace s)))"

definition pow10 :: "int \<Rightarrow> rat" where
  "pow10 k = (if 0 \<le> k then 10 ^ nat k else 1 / 10 ^ nat (- k))"

definition decimalDigits :: "string \<Rightarrow> nat option" where
  "decimalDigits ds = (if ds \<noteq> [] \<and> list_all isDigit ds then Some (digitsVal 10 ds) else None)"

definition signedInteger :: "string \<Rightarrow> int option" where
  "signedInteger s =
     (case s of
        [] \<Rightarrow> None
      | c # r \<Rightarrow>
          if c = CHR ''+'' then map_option int (decimalDigits r)
          else if c = CHR ''-'' then map_option (\<lambda>n. - int n) (decimalDigits r)
          else map_option int (decimalDigits s))"

text \<open>What follows the mantissa: nothing (exponent 0), or \<open>e\<close>/\<open>E\<close> and a signed integer.\<close>

definition exponentPart :: "string \<Rightarrow> int option" where
  "exponentPart s =
     (case s of
        [] \<Rightarrow> Some 0
      | c # r \<Rightarrow> if c = CHR ''e'' \<or> c = CHR ''E'' then signedInteger r else None)"

definition strUnsignedDecimalLiteral :: "string \<Rightarrow> jsnum" where
  "strUnsignedDecimalLiteral s =
     (if s = ''Infinity'' then PosInf
      else
        let ip = takeWhile isDigit s;
            r1 = dropWhile isDigit s;
            (fp, r2) =
              (case r1 of
                 [] \<Rightarrow> ([], [])
               | c # r \<Rightarrow>
                   if c = CHR ''.'' then (takeWhile isDigit r, dropWhile isDigit r)
                   else ([], r1))
        in if ip = [] \<and> fp = [] then NaN
           else (case exponentPart r2 of
                   None \<Rightarrow> NaN
                 | Some e \<Rightarrow>
                     Fin (of_nat (digitsVal 10 (ip @ fp)) * pow10 (e - int (length fp)))))"

definition negate :: "jsnum \<Rightarrow> jsnum" where
  "negate x = (case x of NaN \<Rightarrow> NaN | Fin r \<Rightarrow> Fin (- r) | PosInf \<Rightarrow> NegInf | NegInf \<Rightarrow> PosInf)"

definition strDecimalLiteral :: "string \<Rightarrow> jsnum" where
  "strDecimalLiteral s =
     (case s of
        [] \<Rightarrow> NaN
      | c # r \<Rightarrow>
          if c = CHR ''+'' then strUnsignedDecimalLiteral r
          else if c = CHR ''-'' then negate (strUnsignedDecimalLiteral r)
          else strUnsignedDecimalLiteral s)"

text \<open>\<open>0x\<close>, \<open>0o\<close>, \<open>0b\<close> (either case) and at least one digit of the base; no sign.\<close>

definition nonDecimalIntegerLiteral :: "string \<Rightarrow> jsnum option" where
  "nonDecimalIntegerLiteral s =
     (case s of
        a # b # ds \<Rightarrow>
          if a = CHR ''0'' \<and> ds \<noteq> [] then
            (if (b = CHR ''x'' \<or> b = CHR ''X'') \<and> list_all isHexDigit ds
               then Some (Fin (of_nat (digitsVal 16 ds)))
             else if (b = CHR ''o'' \<or> b = CHR ''O'') \<and> list_all isOctalDigit ds
               then Some (Fin (of_nat (digitsVal 8 ds)))
             else if (b = CHR ''b'' \<or> b = CHR ''B'') \<and> list_all isBinaryDigit ds
               then Some (Fin (of_nat (digitsVal 2 ds)))
             else None)
          else None
      | _ \<Rightarrow> None)"

definition Number :: "string \<Rightarrow> jsnum" where
  "Number s =
     (let t = trimString s
      in if t = [] then Fin 0
         else (case nonDecimalIntegerLiteral t of
                 Some n \<Rightarrow> n
               | None \<Rightarrow> strDecimalLiteral t))"

text \<open>
  \<open>x === 0\<close>: the double nearest to \<open>r\<close> is \<open>+0\<close> or \<open>-0\<close> exactly when
  \<open>\<bar>r\<bar> \<le> 2 powr -1075\<close>, half the least positive double.
  \<open>undefined === 0\<close> and \<open>NaN === 0\<close> are false.
\<close>

definition strictEqualsZero :: "jsnum option \<Rightarrow> bool" where
  "strictEqualsZero x = (case x of Some (Fin r) \<Rightarrow> \<bar>r\<bar> * 2 ^ 1075 \<le> 1 | _ \<Rightarrow> False)"

text \<open>
  \<open>x < 9\<close>: the doubles next to 9 are \<open>9 - 2 powr -49\<close> and 9, and the tie rounds to 9, so
  the double nearest to \<open>r\<close> is below 9 exactly when \<open>r < 9 - 2 powr -50\<close>.
  \<open>undefined < 9\<close> and \<open>NaN < 9\<close> are false.
\<close>

definition lessThanNine :: "jsnum option \<Rightarrow> bool" where
  "lessThanNine x =
     (case x of
        Some (Fin r) \<Rightarrow> (r - 9) * 2 ^ 50 < - 1
      | Some NegInf \<Rightarrow> True
      | _ \<Rightarrow> False)"

subsection \<open>The version gate (lines 90-93)\<close>

definition isOldVersion :: "string \<Rightarrow> bool" where
  "isOldVersion fpmVersion =
     (let versionNum = js_replace ''v'' '''' fpmVersion;
          versionParts = map Number (js_split CHR ''.'' versionNum)
      in strictEqualsZero (js_index versionParts 0) \<and> lessThanNine (js_index versionParts 1))"

subsection \<open>The environment of a run\<close>

text \<open>
  What the collaborators answer, as functions of their arguments: \<open>octokit_request\<close> is
  \<open>github.getOctokit(token)\<close> followed by the request of the latest release, and returns
  the release's \<open>tag_name\<close>; \<open>exec\<close> throws when the command is not found or exits with a
  code other than 0. \<open>path.dirname\<close> and \<open>path.join\<close> are Node's own and are taken as given.
\<close>

record env =
  octokit_request :: "string \<Rightarrow> string outcome"
  downloadTool :: "string \<Rightarrow> string outcome"
  exec :: "string \<Rightarrow> string list \<Rightarrow> exec_options \<Rightarrow> unit outcome"
  mv :: "string \<Rightarrow> string \<Rightarrow> unit outcome"
  mkdirP :: "string \<Rightarrow> unit outcome"
  extractTar :: "string \<Rightarrow> string \<Rightarrow> string outcome"
  rmRF :: "string \<Rightarrow> unit outcome"
  path_dirname :: "string \<Rightarrow> string"
  path_join :: "string list \<Rightarrow> string"
  RUNNER_TEMP :: "string option"
  HOME :: "string option"
  USERPROFILE :: "string option"

record inputs =
  github_token :: string
  fpm_version :: string
  fpm_repository :: string
  os_arch :: string
  process_platform :: string

text \<open>\<open>x || d\<close> on an environment variable: \<open>d\<close> when it is unset or empty.\<close>

definition or_else :: "string option \<Rightarrow> string \<Rightarrow> string" where
  "or_else x d = (case x of None \<Rightarrow> d | Some s \<Rightarrow> if s = [] then d else s)"

text \<open>
  \<open>await ev r k\<close>: the call recorded as \<open>ev\<close> answers \<open>r\<close>; when it throws, the rest \<open>k\<close>
  of the \<open>try\<close> block is skipped and the error goes to the enclosing \<open>catch\<close>.
  \<open>emit ev k\<close>: a call that cannot throw, then \<open>k\<close>.
\<close>

definition await :: "event \<Rightarrow> 'a outcome \<Rightarrow> ('a \<Rightarrow> event list \<times> 'b outcome) \<Rightarrow> event list \<times> 'b outcome" where
  "await ev r k =
     (case r of
        Throws e \<Rightarrow> ([ev], Throws e)
      | Returns x \<Rightarrow> (case k x of (t, r') \<Rightarrow> (ev # t, r')))"

definition emit :: "event \<Rightarrow> event list \<times> 'b outcome \<Rightarrow> event list \<times> 'b outcome" where
  "emit ev k = (case k of (t, r) \<Rightarrow> (ev # t, r))"

subsection \<open>\<open>getLatestReleaseVersion\<close> (lines 190-200) and its use (lines 25-41)\<close>

definition getLatestReleaseVersion :: "env \<Rightarrow> string \<Rightarrow> event list \<times> string outcome" where
  "getLatestReleaseVersion E token = ([Request token], octokit_request E token)"

definition token_message :: string where
  "token_message = ''To fetch the latest fpm version, please supply a github token. Alternatively you can specify the fpm release version manually.''"

definition query_message :: string where
  "query_message = ''Error while querying the latest fpm release version - please check your github token.''"

text \<open>
  The value of the variable \<open>fpmVersion\<close> after line 41. Line 28 does not return: the
  query of line 33 is made with the token \<open>none\<close> as with any other.
\<close>

definition resolve_version :: "env \<Rightarrow> string \<Rightarrow> string \<Rightarrow> event list \<times> string" where
  "resolve_version E token fpmVersion =
     (if fpmVersion = ''latest'' then
        (let t1 = (if token = ''none'' then [SetFailed token_message] else []);
             (t2, r) = getLatestReleaseVersion E token
         in case r of
              Returns tag \<Rightarrow> (t1 @ t2, tag)
            | Throws e \<Rightarrow> (t1 @ t2 @ [SetFailed query_message], fpmVersion))
      else ([], fpmVersion))"

subsection \<open>The downloads (lines 56-83)\<close>

definition compilers :: "string list" where
  "compilers = [''gcc-10'', ''gcc-11'', ''gcc-12'', ''gcc-13'', ''gcc-14'']"

text \<open>
  The \<open>for\<close> loop of lines 69-83 over the compilers that are left: \<open>Some fpmPath\<close> when
  a download succeeded (\<open>success = true; break\<close>), \<open>None\<close> when the loop ran out.
\<close>

fun try_compilers :: "env \<Rightarrow> string \<Rightarrow> string \<Rightarrow> string \<Rightarrow> string \<Rightarrow> string list \<Rightarrow> event list \<times> string option" where
  "try_compilers E fetchPath fpmVersion platform arch [] = ([], None)"
| "try_compilers E fetchPath fpmVersion platform arch (compiler # rest) =
     (let (t, filenameWithSuffix) = getFPMFilename fpmVersion platform arch compiler;
          url = fetchPath @ filenameWithSuffix
      in case downloadTool E url of
           Returns fpmPath \<Rightarrow> (t @ [Download url], Some fpmPath)
         | Throws e \<Rightarrow>
             (case try_compilers E fetchPath fpmVersion platform arch rest of
                (t', r) \<Rightarrow> (t @ Download url # t', r)))"

text \<open>
  Lines 56-83 for a list of compilers (the program's is \<open>compilers\<close>): the filename
  without a suffix first, the loop in the \<open>catch\<close> of that download.
\<close>

definition download_release :: "env \<Rightarrow> string \<Rightarrow> string \<Rightarrow> string \<Rightarrow> string \<Rightarrow> string list \<Rightarrow> event list \<times> string option" where
  "download_release E fetchPath fpmVersion platform arch cs =
     (let (t, filename) = getFPMFilename fpmVersion platform arch '''';
          url = fetchPath @ filename
      in case downloadTool E url of
           Returns fpmPath \<Rightarrow> (t @ [Download url], Some fpmPath)
         | Throws e \<Rightarrow>
             (case try_compilers E fetchPath fpmVersion platform arch cs of
                (t', r) \<Rightarrow> (t @ Download url # t', r)))"

subsection \<open>\<open>installFromSource\<close> (lines 206-298)\<close>

definition silent_options :: exec_options where
  "silent_options = \<lparr>silent = True, cwd = None, env_FC = None\<rparr>"

text \<open>The loop of lines 226-236 over the versions that are left.\<close>

fun find_versioned :: "env \<Rightarrow> nat list \<Rightarrow> event list \<times> string option" where
  "find_versioned E [] = ([], None)"
| "find_versioned E (ver # rest) =
     (let cmd = ''gfortran-'' @ string_of_nat ver;
          ev = Exec ''which'' [cmd] silent_options
      in case exec E ''which'' [cmd] silent_options of
           Returns u \<Rightarrow> ([ev], Some cmd)
         | Throws e \<Rightarrow> (case find_versioned E rest of (t, r) \<Rightarrow> (ev # t, r)))"

definition gfortran_message :: string where
  "gfortran_message =
     ''gfortran is required to build fpm from source on macOS ARM64.'' @ [CHR 0x0A] @
     ''Please install gcc version 10-13 before running this action, for example:'' @ [CHR 0x0A] @
     ''  - name: Install gfortran'' @ [CHR 0x0A] @
     ''    run: brew install gcc@13'' @ [CHR 0x0A] @
     ''Or use fortran-lang/setup-fortran to install a Fortran compiler.''"

text \<open>The directories of lines 258, 271 and 272.\<close>

definition buildDir :: "env \<Rightarrow> string" where
  "buildDir E = path_join E [or_else (RUNNER_TEMP E) ''/tmp'', ''fpm-build'']"

definition installPrefix :: "env \<Rightarrow> string" where
  "installPrefix E =
     path_join E [or_else (HOME E) (or_else (USERPROFILE E) ''/tmp''), ''.local'']"

definition installDir :: "env \<Rightarrow> string" where
  "installDir E = path_join E [installPrefix E, ''bin'']"

text \<open>The call of \<open>install.sh\<close> (lines 276-283): its arguments and options.\<close>

definition install_args :: "env \<Rightarrow> string \<Rightarrow> string list" where
  "install_args E fpmVersion =
     (let versionNumber = js_replace ''v'' '''' fpmVersion;
          fpmSourceDir = path_join E [buildDir E, ''fpm-'' @ versionNumber];
          installScript = path_join E [fpmSourceDir, ''install.sh'']
      in [installScript, ''--prefix='' @ installPrefix E])"

definition install_options :: "env \<Rightarrow> string \<Rightarrow> string \<Rightarrow> exec_options" where
  "install_options E fpmVersion gfortranCmd =
     (let versionNumber = js_replace ''v'' '''' fpmVersion;
          fpmSourceDir = path_join E [buildDir E, ''fpm-'' @ versionNumber]
      in \<lparr>silent = False, cwd = Some fpmSourceDir, env_FC = Some gfortranCmd\<rparr>)"

text \<open>
  Lines 250-290, once \<open>gfortranCmd\<close> is chosen: every call is awaited inside the \<open>try\<close> of
  line 208, and \<open>io.rmRF\<close> is the last of them.
\<close>

definition build_from_source :: "env \<Rightarrow> string \<Rightarrow> string \<Rightarrow> string \<Rightarrow> event list \<times> unit outcome" where
  "build_from_source E fpmVersion fpmRepo gfortranCmd =
     (let tarballUrl = fpmRepo @ ''/archive/refs/tags/'' @ fpmVersion @ ''.tar.gz'';
          args = install_args E fpmVersion;
          opts = install_options E fpmVersion gfortranCmd
      in await (Download tarballUrl) (downloadTool E tarballUrl) (\<lambda>tarballPath.
         await (MkdirP (buildDir E)) (mkdirP E (buildDir E)) (\<lambda>u1.
         await (ExtractTar tarballPath (buildDir E)) (extractTar E tarballPath (buildDir E)) (\<lambda>extractDir.
         await (MkdirP (installDir E)) (mkdirP E (installDir E)) (\<lambda>u2.
         await (Exec ''bash'' args opts) (exec E ''bash'' args opts) (\<lambda>u3.
         emit (AddPath (installDir E))
         (await (RmRF (buildDir E)) (rmRF E (buildDir E)) (\<lambda>u4. ([], Returns ())))))))))"

definition installFromSource :: "env \<Rightarrow> string \<Rightarrow> string \<Rightarrow> event list" where
  "installFromSource E fpmVersion fpmRepo =
     (let probe = Exec ''which'' [''gfortran''] silent_options;
          foundGfortran =
            (case exec E ''which'' [''gfortran''] silent_options of
               Returns u \<Rightarrow> True
             | Throws e \<Rightarrow> False);
          (t, versioned) = find_versioned E [13, 12, 11, 10];
          gfortranCmd = (case versioned of Some cmd \<Rightarrow> cmd | None \<Rightarrow> ''gfortran'');
          foundVersioned = (versioned \<noteq> None)
      in if \<not> foundVersioned \<and> \<not> foundGfortran then probe # t @ [SetFailed gfortran_message]
         else (case build_from_source E fpmVersion fpmRepo gfortranCmd of
                 (t', Returns u) \<Rightarrow> probe # t @ t'
               | (t', Throws e) \<Rightarrow>
                   probe # t @ t' @ [SetFailed (''Failed to install fpm from source: '' @ e)]))"

subsection \<open>\<open>main\<close> (lines 11-142)\<close>

definition old_version_message :: "string \<Rightarrow> string" where
  "old_version_message fpmVersion =
     ''Building fpm '' @ fpmVersion @ '' from source is not supported on macOS ARM64.'' @ [CHR 0x0A] @
     ''Please use fpm v0.9.0 or later, which has a working install.sh script.'' @ [CHR 0x0A] @
     ''For example, set fpm-version to '' @ [CHR 0x22] @ ''v0.9.0'' @ [CHR 0x22] @ '', '' @
     [CHR 0x22] @ ''v0.10.1'' @ [CHR 0x22] @ '' or '' @ [CHR 0x22] @ ''latest'' @ [CHR 0x22] @ ''.''"

definition fetch_message :: string where
  "fetch_message = ''Error while trying to fetch fpm - please check that a version exists at the above release url.''"

text \<open>
  When no download succeeded and line 108 was reached, \<open>fpmPath\<close> is still \<open>undefined\<close> at
  line 113, where \<open>path.dirname\<close> throws a \<open>TypeError\<close> with this message.
\<close>

definition dirname_undefined_message :: string where
  "dirname_undefined_message =
     ''The '' @ [CHR 0x22] @ ''path'' @ [CHR 0x22] @ '' argument must be of type string. Received undefined''"

text \<open>Lines 112-135; \<open>fpmPath\<close> is \<open>None\<close> when the variable is \<open>undefined\<close>.\<close>

definition finalize :: "env \<Rightarrow> string \<Rightarrow> string option \<Rightarrow> event list \<times> unit outcome" where
  "finalize E platform fpmPath =
     (case fpmPath of
        None \<Rightarrow> ([], Throws dirname_undefined_message)
      | Some p \<Rightarrow>
          (let downloadDir = path_dirname E p;
               chmod = ''chmod u+x '' @ p;
               target = downloadDir @ ''/'' @ (if platform = ''win32'' then ''fpm.exe'' else ''fpm'');
               rest = await (Mv p target) (mv E p target) (\<lambda>u.
                      emit (AddPath downloadDir) ([], Returns ()))
           in if platform = ''linux'' \<or> platform = ''darwin''
              then await (Exec chmod [] no_options) (exec E chmod [] no_options) (\<lambda>u. rest)
              else rest))"

text \<open>The \<open>catch\<close> of line 137.\<close>

definition catch_main :: "event list \<times> unit outcome \<Rightarrow> event list" where
  "catch_main m = (case m of (t, Returns u) \<Rightarrow> t | (t, Throws e) \<Rightarrow> t @ [SetFailed e])"

definition main :: "env \<Rightarrow> inputs \<Rightarrow> event list" where
  "main E I =
     (let token = github_token I;
          fpmRepo = fpm_repository I;
          arch = os_arch I;
          platform = process_platform I;
          (t0, fpmVersion) = resolve_version E token (fpm_version I);
          fetchPath = fpmRepo @ ''/releases/download/'' @ fpmVersion @ ''/'';
          (t1, filename) = getFPMFilename fpmVersion platform arch '''';
          (t2, fpmPath) = download_release E fetchPath fpmVersion platform arch compilers
      in case fpmPath of
           Some p \<Rightarrow> t0 @ t1 @ t2 @ catch_main (finalize E platform fpmPath)
         | None \<Rightarrow>
             if platform = ''darwin'' \<and> arch = ''arm64'' then
               (if isOldVersion fpmVersion
                then t0 @ t1 @ t2 @ [SetFailed (old_version_message fpmVersion)]
                else t0 @ t1 @ t2 @ installFromSource E fpmVersion fpmRepo)
             else t0 @ t1 @ t2 @ [SetFailed fetch_message]
                    @ catch_main (finalize E platform fpmPath))"

text \<open>The events of one kind in a trace.\<close>

definition downloads :: "event list \<Rightarrow> string list" where
  "downloads t = concat (map (\<lambda>ev. case ev of Download url \<Rightarrow> [url] | _ \<Rightarrow> []) t)"

definition failures :: "event list \<Rightarrow> string list" where
  "failures t = concat (map (\<lambda>ev. case ev of SetFailed m \<Rightarrow> [m] | _ \<Rightarrow> []) t)"


definition commands :: "event list \<Rightarrow> string list" where
  "commands t = concat (map (\<lambda>ev. case ev of Exec cmd args opts \<Rightarrow> [cmd] | _ \<Rightarrow> []) t)"



subsection \<open>The words of the properties\<close>

text \<open>The elements of a list up to the first one that is \<open>ok\<close>, that one included.\<close>

definition up_to_first :: "('a \<Rightarrow> bool) \<Rightarrow> 'a list \<Rightarrow> 'a list" where
  "up_to_first ok xs = takeWhile (\<lambda>x. \<not> ok x) xs @ take 1 (dropWhile (\<lambda>x. \<not> ok x) xs)"

definition fetched :: "env \<Rightarrow> string \<Rightarrow> bool" where
  "fetched E url = (case downloadTool E url of Returns path \<Rightarrow> True | Throws e \<Rightarrow> False)"

text \<open>The URLs of the candidates: the filename without a suffix, then one per compiler.\<close>

definition candidate_urls :: "string \<Rightarrow> string \<Rightarrow> string \<Rightarrow> string \<Rightarrow> string list \<Rightarrow> string list" where
  "candidate_urls fetchPath fpmVersion platform arch cs =
     map (\<lambda>compiler. fetchPath @ snd (getFPMFilename fpmVersion platform arch compiler)) ('''' # cs)"

text \<open>The path that the first candidate to be fetched gives, if there is one.\<close>

definition first_fetched :: "env \<Rightarrow> string list \<Rightarrow> string option" where
  "first_fetched E urls =
     (case find (fetched E) urls of
        None \<Rightarrow> None
      | Some url \<Rightarrow> (case downloadTool E url of Returns path \<Rightarrow> Some path | Throws e \<Rightarrow> None))"


definition which :: "string \<Rightarrow> event" where
  "which cmd = Exec ''which'' [cmd] silent_options"



text \<open>
  The filename and the gate in the words of the specification, which strips a leading
  \<open>v\<close> where the program removes the first \<open>v\<close> of the string.
\<close>

definition strip_leading_v :: "string \<Rightarrow> string" where
  "strip_leading_v s = (case s of [] \<Rightarrow> [] | c # cs \<Rightarrow> if c = CHR ''v'' then cs else s)"

definition os_name :: "string \<Rightarrow> string" where
  "os_name platform =
     (if platform = ''linux'' then ''linux''
      else if platform = ''darwin'' then ''macos''
      else if platform = ''win32'' then ''windows'' else [])"

definition specified_filename :: "string \<Rightarrow> string \<Rightarrow> string \<Rightarrow> string option \<Rightarrow> string" where
  "specified_filename version platform arch tag =
     ''fpm-'' @ strip_leading_v version @ ''-'' @ os_name platform @ ''-''
       @ (if arch = ''arm64'' then ''arm64'' else ''x86_64'')
       @ (case tag of None \<Rightarrow> [] | Some t \<Rightarrow> ''-'' @ t)
       @ (if platform = ''win32'' then ''.exe'' else [])"

definition specified_gate_refuses :: "string \<Rightarrow> bool" where
  "specified_gate_refuses version =
     (let parts = map Number (js_split CHR ''.'' (strip_leading_v version))
      in strictEqualsZero (js_index parts 0) \<and> lessThanNine (js_index parts 1))"

text \<open>The first \<open>v\<close> of the string, if it has one, is its first character.\<close>

definition first_v_leading :: "string \<Rightarrow> bool" where
  "first_v_leading s = (case s of [] \<Rightarrow> True | c # cs \<Rightarrow> c = CHR ''v'' \<or> CHR ''v'' \<notin> set cs)"

text \<open>The parts of \<open>main\<close>: the version after line 41, the URL prefix of line 49, lines 56-83.\<close>

definition resolved_version :: "env \<Rightarrow> inputs \<Rightarrow> string" where
  "resolved_version E I = snd (resolve_version E (github_token I) (fpm_version I))"

definition fetch_path :: "env \<Rightarrow> inputs \<Rightarrow> string" where
  "fetch_path E I = fpm_repository I @ ''/releases/download/'' @ resolved_version E I @ ''/''"

definition acquisition :: "env \<Rightarrow> inputs \<Rightarrow> event list \<times> string option" where
  "acquisition E I =
     download_release E (fetch_path E I) (resolved_version E I) (process_platform I) (os_arch I)
       compilers"

definition before_acquisition :: "env \<Rightarrow> inputs \<Rightarrow> event list" where
  "before_acquisition E I =
     fst (resolve_version E (github_token I) (fpm_version I))
     @ fst (getFPMFilename (resolved_version E I) (process_platform I) (os_arch I) '''')"

definition after_acquisition :: "env \<Rightarrow> inputs \<Rightarrow> event list" where
  "after_acquisition E I =
     (case snd (acquisition E I) of
        Some p \<Rightarrow> catch_main (finalize E (process_platform I) (Some p))
      | None \<Rightarrow>
          if process_platform I = ''darwin'' \<and> os_arch I = ''arm64'' then
            (if isOldVersion (resolved_version E I)
             then [SetFailed (old_version_message (resolved_version E I))]
             else installFromSource E (resolved_version E I) (fpm_repository I))
          else SetFailed fetch_message # catch_main (finalize E (process_platform I) None))"

definition all_candidates_fail :: "env \<Rightarrow> inputs \<Rightarrow> bool" where
  "all_candidates_fail E I =
     list_all (\<lambda>url. \<not> fetched E url)
       (candidate_urls (fetch_path E I) (resolved_version E I) (process_platform I) (os_arch I)
          compilers)"

text \<open>
  \<open>installFromSource\<close> starts by running \<open>which\<close>, a command that no other part of the
  program runs: a trace with it is the trace of a run that entered \<open>installFromSource\<close>.
\<close>

definition enters_source_build :: "event list \<Rightarrow> bool" where
  "enters_source_build t = (''which'' \<in> set (commands t))"







text \<open>
  The release query throws for this token. The release index needs a credential: line 27
  takes the token \<open>none\<close> for a missing one, and a request made with it is answered
  \<open>401 Bad credentials\<close>, which \<open>octokit\<close> throws.
\<close>

definition query_throws :: "env \<Rightarrow> string \<Rightarrow> bool" where
  "query_throws E token =
     (case octokit_request E token of Throws e \<Rightarrow> True | Returns tag \<Rightarrow> False)"

subsection \<open>Environments for the examples\<close>

definition stub_join :: "string list \<Rightarrow> string" where
  "stub_join ps = (case ps of [] \<Rightarrow> ''.'' | p # qs \<Rightarrow> foldl (\<lambda>a b. a @ ''/'' @ b) p qs)"

definition stub_dirname :: "string \<Rightarrow> string" where
  "stub_dirname p = rev (drop 1 (dropWhile (\<lambda>c. c \<noteq> CHR ''/'') (rev p)))"

text \<open>No release to download, no answer from the release index; every other call succeeds.\<close>

definition stub_env :: env where
  "stub_env =
     \<lparr>octokit_request = (\<lambda>token. Throws ''Bad credentials''),
      downloadTool = (\<lambda>url. Throws ''Unexpected HTTP response: 404''),
      exec = (\<lambda>cmd args opts. Returns ()),
      mv = (\<lambda>src dst. Returns ()),
      mkdirP = (\<lambda>d. Returns ()),
      extractTar = (\<lambda>file d. Returns d),
      rmRF = (\<lambda>d. Returns ()),
      path_dirname = stub_dirname,
      path_join = stub_join,
      RUNNER_TEMP = Some ''/runner/_temp'',
      HOME = Some ''/Users/runner'',
      USERPROFILE = None\<rparr>"

definition stub_inputs :: "string \<Rightarrow> string \<Rightarrow> string \<Rightarrow> inputs" where
  "stub_inputs version platform arch =
     \<lparr>github_token = ''t0ken'',
      fpm_version = version,
      fpm_repository = ''https://github.com/fortran-lang/fpm'',
      os_arch = arch,
      process_platform = platform\<rparr>"

text \<open>Only the binary built with gcc-11 for linux can be downloaded.\<close>

definition gcc11_env :: env where
  "gcc11_env =
     stub_env\<lparr>downloadTool := (\<lambda>url.
       if url = ''https://github.com/fortran-lang/fpm/releases/download/v0.10.1/fpm-0.10.1-linux-x86_64-gcc-11''
       then Returns ''/runner/_temp/3f0c'' else Throws ''Unexpected HTTP response: 404'')\<rparr>"




text \<open>A run that asks for the latest release without a token.\<close>

definition latest_without_token :: inputs where
  "latest_without_token = (stub_inputs ''latest'' ''linux'' ''x64'')\<lparr>github_token := ''none''\<rparr>"

section \<open>Properties\<close>

subsection \<open>Traces and filenames\<close>

lemma downloads_Nil: "downloads [] = []"
  by (simp add: downloads_def)

lemma downloads_Cons:
  "downloads (ev # t) = (case ev of Download url \<Rightarrow> url # downloads t | _ \<Rightarrow> downloads t)"
  by (cases ev) (simp_all add: downloads_def)

lemma downloads_append: "downloads (s @ t) = downloads s @ downloads t"
  by (simp add: downloads_def)

lemma fst_getFPMFilename:
  "fst (getFPMFilename v p a c) =
     (if p = ''linux'' \<or> p = ''darwin'' \<or> p = ''win32'' then [] else [SetFailed ''Unknown platform''])"
  by (simp add: getFPMFilename_def Let_def)

lemma downloads_getFPMFilename: "downloads (fst (getFPMFilename v p a c)) = []"
  by (simp add: fst_getFPMFilename downloads_Nil downloads_Cons)

lemma up_to_first_Nil: "up_to_first ok [] = []"
  by (simp add: up_to_first_def)

lemma up_to_first_Cons: "up_to_first ok (x # xs) = (if ok x then [x] else x # up_to_first ok xs)"
  by (simp add: up_to_first_def)

lemma fetched_Returns: "downloadTool E url = Returns path \<Longrightarrow> fetched E url"
  by (simp add: fetched_def)

lemma fetched_Throws: "downloadTool E url = Throws e \<Longrightarrow> \<not> fetched E url"
  by (simp add: fetched_def)

lemma try_compilers_downloads:
  "downloads (fst (try_compilers E fp v p a cs)) =
     up_to_first (fetched E) (map (\<lambda>c. fp @ snd (getFPMFilename v p a c)) cs)"
proof (induction cs)
  case Nil
  show ?case by (simp add: downloads_Nil up_to_first_Nil)
next
  case (Cons c cs)
  show ?case
  proof (cases "downloadTool E (fp @ snd (getFPMFilename v p a c))")
    case (Throws e)
    with Cons show ?thesis
      by (simp add: split_beta Let_def downloads_append downloads_Cons downloads_getFPMFilename
          up_to_first_Cons fetched_Throws)
  next
    case (Returns path)
    then show ?thesis
      by (simp add: split_beta Let_def downloads_append downloads_Cons downloads_Nil
          downloads_getFPMFilename up_to_first_Cons fetched_Returns)
  qed
qed

lemma try_compilers_result:
  "snd (try_compilers E fp v p a cs) =
     first_fetched E (map (\<lambda>c. fp @ snd (getFPMFilename v p a c)) cs)"
proof (induction cs)
  case Nil
  show ?case by (simp add: first_fetched_def)
next
  case (Cons c cs)
  show ?case
  proof (cases "downloadTool E (fp @ snd (getFPMFilename v p a c))")
    case (Throws e)
    with Cons show ?thesis
      by (simp add: split_beta Let_def first_fetched_def fetched_Throws)
  next
    case (Returns path)
    then show ?thesis
      by (simp add: split_beta Let_def first_fetched_def fetched_Returns)
  qed
qed

lemma download_release_downloads:
  "downloads (fst (download_release E fp v p a cs)) =
     up_to_first (fetched E) (candidate_urls fp v p a cs)"
proof (cases "downloadTool E (fp @ snd (getFPMFilename v p a ''''))")
  case (Throws e)
  then show ?thesis
    by (simp add: download_release_def candidate_urls_def split_beta Let_def downloads_append
        downloads_Cons downloads_getFPMFilename up_to_first_Cons fetched_Throws
        try_compilers_downloads)
next
  case (Returns path)
  then show ?thesis
    by (simp add: download_release_def candidate_urls_def split_beta Let_def downloads_append
        downloads_Cons downloads_Nil downloads_getFPMFilename up_to_first_Cons fetched_Returns)
qed

lemma download_release_result:
  "snd (download_release E fp v p a cs) = first_fetched E (candidate_urls fp v p a cs)"
proof (cases "downloadTool E (fp @ snd (getFPMFilename v p a ''''))")
  case (Throws e)
  then show ?thesis
    using try_compilers_result [of E fp v p a cs]
    by (simp add: download_release_def candidate_urls_def split_beta Let_def first_fetched_def
        fetched_Throws)
next
  case (Returns path)
  then show ?thesis
    by (simp add: download_release_def candidate_urls_def split_beta Let_def first_fetched_def
        fetched_Returns)
qed

lemma first_fetched_None: "first_fetched E urls = None \<longleftrightarrow> (\<forall>url \<in> set urls. \<not> fetched E url)"
  by (induction urls) (auto simp: first_fetched_def fetched_def split: outcome.splits)

lemma up_to_first_none: "(\<forall>x \<in> set xs. \<not> ok x) \<Longrightarrow> up_to_first ok xs = xs"
  by (induction xs) (simp_all add: up_to_first_Nil up_to_first_Cons)

lemma up_to_first_prefix: "prefix (up_to_first ok xs) xs"
  by (induction xs) (simp_all add: up_to_first_Nil up_to_first_Cons)

subsection \<open>The acquisition cascade\<close>

text \<open>
  C1. For every list of compiler tags and every behaviour of the fetch, the downloads that
  lines 56-83 attempt are the candidates in their order, up to the first one that is
  fetched and that one included: a candidate that fails is followed by the next one, and
  no candidate is attempted after one that succeeded. The path returned is the path of
  that first success; there is none when every candidate failed.
\<close>

theorem acquisition_cascade:
  "downloads (fst (download_release E fetchPath v p a cs)) =
     up_to_first (fetched E) (candidate_urls fetchPath v p a cs)
   \<and> snd (download_release E fetchPath v p a cs) =
     first_fetched E (candidate_urls fetchPath v p a cs)"
  by (simp add: download_release_downloads download_release_result)

theorem acquisition_cascade_witness:
  "downloads (fst (download_release gcc11_env
      ''https://github.com/fortran-lang/fpm/releases/download/v0.10.1/'' ''v0.10.1'' ''linux'' ''x64''
      compilers)) =
     [''https://github.com/fortran-lang/fpm/releases/download/v0.10.1/fpm-0.10.1-linux-x86_64'',
      ''https://github.com/fortran-lang/fpm/releases/download/v0.10.1/fpm-0.10.1-linux-x86_64-gcc-10'',
      ''https://github.com/fortran-lang/fpm/releases/download/v0.10.1/fpm-0.10.1-linux-x86_64-gcc-11'']
   \<and> snd (download_release gcc11_env
      ''https://github.com/fortran-lang/fpm/releases/download/v0.10.1/'' ''v0.10.1'' ''linux'' ''x64''
      compilers) = Some ''/runner/_temp/3f0c''"
  using acquisition_cascade [of gcc11_env
      "''https://github.com/fortran-lang/fpm/releases/download/v0.10.1/''" "''v0.10.1''" "''linux''"
      "''x64''" compilers]
  by (simp add: candidate_urls_def compilers_def getFPMFilename_def up_to_first_def
      first_fetched_def fetched_def gcc11_env_def stub_env_def)

text \<open>
  C2. The candidates of a version, platform and architecture are six URLs: the filename
  without a compiler tag first, then the filenames tagged gcc-10, gcc-11, gcc-12, gcc-13
  and gcc-14 in this order. The downloads of a run are always a prefix of this list, and
  the whole list when no download succeeds.
\<close>

theorem candidate_list:
  "candidate_urls fetchPath v p a compilers =
     [fetchPath @ snd (getFPMFilename v p a ''''),
      fetchPath @ snd (getFPMFilename v p a ''gcc-10''),
      fetchPath @ snd (getFPMFilename v p a ''gcc-11''),
      fetchPath @ snd (getFPMFilename v p a ''gcc-12''),
      fetchPath @ snd (getFPMFilename v p a ''gcc-13''),
      fetchPath @ snd (getFPMFilename v p a ''gcc-14'')]
   \<and> length (candidate_urls fetchPath v p a compilers) = 6
   \<and> prefix (downloads (fst (download_release E fetchPath v p a compilers)))
        (candidate_urls fetchPath v p a compilers)
   \<and> (snd (download_release E fetchPath v p a compilers) = None \<longrightarrow>
        downloads (fst (download_release E fetchPath v p a compilers)) =
          candidate_urls fetchPath v p a compilers)"
proof -
  have "snd (download_release E fetchPath v p a compilers) = None \<Longrightarrow>
        downloads (fst (download_release E fetchPath v p a compilers)) =
          candidate_urls fetchPath v p a compilers"
    by (simp add: download_release_downloads download_release_result first_fetched_None
        up_to_first_none)
  then show ?thesis
    by (simp add: download_release_downloads up_to_first_prefix)
       (simp add: candidate_urls_def compilers_def)
qed

theorem candidate_list_witness:
  "snd (download_release stub_env ''https://github.com/fortran-lang/fpm/releases/download/v0.10.1/''
      ''v0.10.1'' ''win32'' ''x64'' compilers) = None
   \<and> downloads (fst (download_release stub_env
      ''https://github.com/fortran-lang/fpm/releases/download/v0.10.1/'' ''v0.10.1'' ''win32'' ''x64''
      compilers)) =
     [''https://github.com/fortran-lang/fpm/releases/download/v0.10.1/fpm-0.10.1-windows-x86_64.exe'',
      ''https://github.com/fortran-lang/fpm/releases/download/v0.10.1/fpm-0.10.1-windows-x86_64-gcc-10.exe'',
      ''https://github.com/fortran-lang/fpm/releases/download/v0.10.1/fpm-0.10.1-windows-x86_64-gcc-11.exe'',
      ''https://github.com/fortran-lang/fpm/releases/download/v0.10.1/fpm-0.10.1-windows-x86_64-gcc-12.exe'',
      ''https://github.com/fortran-lang/fpm/releases/download/v0.10.1/fpm-0.10.1-windows-x86_64-gcc-13.exe'',
      ''https://github.com/fortran-lang/fpm/releases/download/v0.10.1/fpm-0.10.1-windows-x86_64-gcc-14.exe'']"
proof -
  have none: "snd (download_release stub_env
      ''https://github.com/fortran-lang/fpm/releases/download/v0.10.1/'' ''v0.10.1'' ''win32'' ''x64''
      compilers) = None"
    by (simp add: download_release_def compilers_def getFPMFilename_def stub_env_def)
  show ?thesis
    using none candidate_list [of "''https://github.com/fortran-lang/fpm/releases/download/v0.10.1/''"
        "''v0.10.1''" "''win32''" "''x64''" stub_env]
    by (simp add: getFPMFilename_def)
qed

subsection \<open>The filename and the first \<open>v\<close>\<close>

lemma js_replace_v_absent: "CHR ''v'' \<notin> set s \<Longrightarrow> js_replace ''v'' '''' s = s"
  by (induction s) auto

lemma js_replace_v_shorter: "CHR ''v'' \<in> set s \<Longrightarrow> length (js_replace ''v'' '''' s) < length s"
  by (induction s) auto

lemma js_replace_v_leading:
  "js_replace ''v'' '''' s = strip_leading_v s \<longleftrightarrow> first_v_leading s"
proof (cases s)
  case Nil
  then show ?thesis by (simp add: strip_leading_v_def first_v_leading_def)
next
  case (Cons c cs)
  show ?thesis
  proof (cases "c = CHR ''v''")
    case True
    with Cons show ?thesis by (simp add: strip_leading_v_def first_v_leading_def)
  next
    case False
    have "js_replace ''v'' '''' cs = cs \<longleftrightarrow> CHR ''v'' \<notin> set cs"
      using js_replace_v_absent [of cs] js_replace_v_shorter [of cs] by fastforce
    with Cons False show ?thesis by (simp add: strip_leading_v_def first_v_leading_def)
  qed
qed

lemma getFPMFilename_known_platform:
  assumes "p = ''linux'' \<or> p = ''darwin'' \<or> p = ''win32''"
  shows "getFPMFilename v p a c =
     ([], ''fpm-'' @ js_replace ''v'' '''' v @ ''-'' @ os_name p @ ''-''
            @ (if a = ''arm64'' then ''arm64'' else ''x86_64'')
            @ (if c = [] then [] else ''-'' @ c)
            @ (if p = ''win32'' then ''.exe'' else []))"
  using assms by (auto simp: getFPMFilename_def os_name_def)

lemma getFPMFilename_as_specified:
  assumes "p = ''linux'' \<or> p = ''darwin'' \<or> p = ''win32''" and "first_v_leading v"
  shows "getFPMFilename v p a [] = ([], specified_filename v p a None)"
    and "tag \<noteq> [] \<Longrightarrow> getFPMFilename v p a tag = ([], specified_filename v p a (Some tag))"
  using assms js_replace_v_leading [of v]
  by (simp_all add: getFPMFilename_known_platform specified_filename_def)

text \<open>
  C3. As specified, for every version, a platform among linux, darwin and win32, every
  architecture and an optional compiler tag, the filename is \<open>fpm-\<close>, the version without a
  leading \<open>v\<close>, the name of the system, the architecture (\<open>arm64\<close> for \<open>arm64\<close>, \<open>x86_64\<close>
  otherwise), the tag if there is one, and \<open>.exe\<close> on windows, in this order.
  The program does so where the first \<open>v\<close> of the version is its first character
  (\<open>getFPMFilename_as_specified\<close>). Line 157 removes the first \<open>v\<close> wherever it stands,
  under a comment that says "Remove the leading 'v' if it exists": for the version
  \<open>0.10.0-dev\<close> the filename is built from \<open>0.10.0-de\<close>.
\<close>

theorem filename_first_v_removed:
  "getFPMFilename ''0.10.0-dev'' ''linux'' ''x64'' '''' = ([], ''fpm-0.10.0-de-linux-x86_64'')
   \<and> specified_filename ''0.10.0-dev'' ''linux'' ''x64'' None = ''fpm-0.10.0-dev-linux-x86_64''"
  by (simp add: getFPMFilename_def specified_filename_def strip_leading_v_def os_name_def)

subsection \<open>The version gate\<close>

lemma isOldVersion_as_specified:
  "first_v_leading v \<Longrightarrow> isOldVersion v = specified_gate_refuses v"
  using js_replace_v_leading [of v] by (simp add: isOldVersion_def specified_gate_refuses_def)

lemma Number_digit: "isDigit c \<Longrightarrow> Number [c] = Fin (of_nat (digitVal c))"
  by (auto simp: Number_def trimString_def isWhiteSpace_def isDigit_def nonDecimalIntegerLiteral_def
      strDecimalLiteral_def strUnsignedDecimalLiteral_def exponentPart_def digitsVal_def pow10_def
      Let_def)

lemma Number_digits:
  "Number ''0'' = Fin 0" "Number ''1'' = Fin 1" "Number ''2'' = Fin 2" "Number ''8'' = Fin 8"
  "Number ''9'' = Fin 9"
  by (simp_all add: Number_digit isDigit_def digitVal_def)

lemma Number_not_a_number: "Number ''v8'' = NaN" "Number ''latest'' = NaN"
  by (simp_all add: Number_def trimString_def isWhiteSpace_def isDigit_def
      nonDecimalIntegerLiteral_def strDecimalLiteral_def strUnsignedDecimalLiteral_def
      exponentPart_def Let_def)

lemma isOldVersion_examples:
  "isOldVersion ''v0.8.0''" "\<not> isOldVersion ''v0.9.0''" "\<not> isOldVersion ''v1.2.0''"
  "\<not> isOldVersion ''latest''" "\<not> isOldVersion ''v1''"
  by (simp_all add: isOldVersion_def js_index_def Number_digits Number_not_a_number
      strictEqualsZero_def lessThanNine_def)

text \<open>
  C4. As specified, the gate strips a leading \<open>v\<close>, splits on \<open>.\<close>, converts the first two
  components and refuses the source build exactly when the first is 0 and the second below
  9; it permits it otherwise, also when a component is missing or not a number; it refuses
  \<open>v0.8.0\<close> and permits \<open>v0.9.0\<close> and \<open>v1.2.0\<close>.
  The program does so where the first \<open>v\<close> of the version is its first character
  (\<open>isOldVersion_as_specified\<close>, \<open>isOldVersion_examples\<close>). Line 91 removes the first \<open>v\<close>
  wherever it stands, as line 157 does: the version \<open>0.v8.0\<close>, whose second component
  \<open>v8\<close> is not a number, is refused as \<open>0.8.0\<close> is.
\<close>

theorem gate_first_v_removed:
  "isOldVersion ''0.v8.0'' \<and> \<not> specified_gate_refuses ''0.v8.0''"
  by (simp add: isOldVersion_def specified_gate_refuses_def strip_leading_v_def js_index_def
      Number_digits Number_not_a_number strictEqualsZero_def lessThanNine_def)

subsection \<open>The parts of \<open>main\<close>\<close>

lemma main_parts: "main E I = before_acquisition E I @ fst (acquisition E I) @ after_acquisition E I"
proof (cases "snd (acquisition E I)")
  case None
  then show ?thesis
    unfolding main_def before_acquisition_def after_acquisition_def acquisition_def
      resolved_version_def fetch_path_def Let_def split_beta
    by simp
next
  case (Some p)
  then show ?thesis
    unfolding main_def before_acquisition_def after_acquisition_def acquisition_def
      resolved_version_def fetch_path_def Let_def split_beta
    by simp
qed

lemma first_download:
  "Download (fp @ snd (getFPMFilename v p a '''')) \<in> set (fst (download_release E fp v p a cs))"
  by (cases "downloadTool E (fp @ snd (getFPMFilename v p a ''''))")
     (simp_all add: download_release_def split_beta Let_def)

subsection \<open>A platform that is not known\<close>

text \<open>
  C9. For a platform other than linux, darwin and win32, \<open>getFPMFilename\<close> records the
  failure \<open>Unknown platform\<close> and still returns a filename, without the name of a system
  and without an architecture: \<open>fpm-\<close>, the version, \<open>-\<close> and the tag if there is one.
  The run goes on: \<open>main\<close> attempts the download of that filename.
\<close>

theorem unknown_platform_continues:
  assumes "platform \<notin> {''linux'', ''darwin'', ''win32''}"
  shows "getFPMFilename v platform a c =
           ([SetFailed ''Unknown platform''],
            ''fpm-'' @ js_replace ''v'' '''' v @ ''-'' @ (if c = [] then [] else ''-'' @ c))
         \<and> (process_platform I = platform \<longrightarrow>
              Download (fpm_repository I @ ''/releases/download/'' @ resolved_version E I
                        @ ''/fpm-'' @ js_replace ''v'' '''' (resolved_version E I) @ ''-'')
                \<in> set (main E I))"
proof -
  have name: "\<And>v a c. getFPMFilename v platform a c =
           ([SetFailed ''Unknown platform''],
            ''fpm-'' @ js_replace ''v'' '''' v @ ''-'' @ (if c = [] then [] else ''-'' @ c))"
    using assms by (simp add: getFPMFilename_def)
  have "Download (fetch_path E I @ snd (getFPMFilename (resolved_version E I) platform (os_arch I) ''''))
          \<in> set (fst (acquisition E I))" if "process_platform I = platform"
    using that first_download by (simp add: acquisition_def)
  then show ?thesis
    by (simp add: name main_parts fetch_path_def)
qed

theorem unknown_platform_continues_witness:
  "''freebsd'' \<notin> {''linux'', ''darwin'', ''win32''}
   \<and> getFPMFilename ''v0.10.1'' ''freebsd'' ''x64'' ''gcc-12'' =
       ([SetFailed ''Unknown platform''], ''fpm-0.10.1--gcc-12'')
   \<and> Download ''https://github.com/fortran-lang/fpm/releases/download/v0.10.1/fpm-0.10.1-''
       \<in> set (main stub_env (stub_inputs ''v0.10.1'' ''freebsd'' ''x64''))"
proof -
  have p: "''freebsd'' \<notin> {''linux'', ''darwin'', ''win32''}" by simp
  have r: "resolved_version stub_env (stub_inputs ''v0.10.1'' ''freebsd'' ''x64'') = ''v0.10.1''"
    by (simp add: resolved_version_def resolve_version_def stub_inputs_def)
  show ?thesis
    using unknown_platform_continues [OF p, of "''v0.10.1''" "''x64''" "''gcc-12''"
        "stub_inputs ''v0.10.1'' ''freebsd'' ''x64''" stub_env] r
    by (simp add: stub_inputs_def)
qed

subsection \<open>When the source build is entered\<close>

lemma commands_Nil: "commands [] = []"
  by (simp add: commands_def)

lemma commands_Cons:
  "commands (ev # t) = (case ev of Exec cmd args opts \<Rightarrow> cmd # commands t | _ \<Rightarrow> commands t)"
  by (cases ev) (simp_all add: commands_def)

lemma commands_append: "commands (s @ t) = commands s @ commands t"
  by (simp add: commands_def)

lemmas commands_simps = commands_Nil commands_Cons commands_append

lemma commands_getFPMFilename: "commands (fst (getFPMFilename v p a c)) = []"
  by (simp add: fst_getFPMFilename commands_simps)

lemma commands_resolve_version: "commands (fst (resolve_version E token v)) = []"
  by (simp add: resolve_version_def getLatestReleaseVersion_def Let_def commands_simps
      split: outcome.splits)

lemma commands_try_compilers: "commands (fst (try_compilers E fp v p a cs)) = []"
proof (induction cs)
  case Nil
  show ?case by (simp add: commands_simps)
next
  case (Cons c cs)
  then show ?case
    by (simp add: split_beta Let_def commands_simps commands_getFPMFilename split: outcome.splits)
qed

lemma commands_download_release: "commands (fst (download_release E fp v p a cs)) = []"
  by (simp add: download_release_def split_beta Let_def commands_simps commands_getFPMFilename
      commands_try_compilers split: outcome.splits)

lemma commands_finalize:
  "commands (catch_main (finalize E p path)) =
     (case path of
        None \<Rightarrow> []
      | Some f \<Rightarrow> if p = ''linux'' \<or> p = ''darwin'' then [''chmod u+x '' @ f] else [])"
  by (simp add: finalize_def catch_main_def await_def emit_def Let_def commands_simps
      split: option.splits outcome.splits)

lemma installFromSource_starts: "\<exists>t. installFromSource E v r = which ''gfortran'' # t"
  by (simp add: installFromSource_def which_def Let_def split_beta split: outcome.splits prod.splits)

lemma acquisition_None: "snd (acquisition E I) = None \<longleftrightarrow> all_candidates_fail E I"
  by (simp add: acquisition_def all_candidates_fail_def download_release_result first_fetched_None
      list_all_iff)

lemma enters_installFromSource: "enters_source_build (installFromSource E v r)"
  using installFromSource_starts [of E v r]
  by (auto simp: enters_source_build_def which_def commands_simps)

lemma enters_main:
  "enters_source_build (main E I) \<longleftrightarrow> enters_source_build (after_acquisition E I)"
  by (simp add: enters_source_build_def main_parts commands_simps before_acquisition_def
      acquisition_def commands_resolve_version commands_getFPMFilename commands_download_release)

lemma not_enters_finalize: "\<not> enters_source_build (catch_main (finalize E p path))"
  by (simp add: enters_source_build_def commands_finalize split: option.splits)

text \<open>
  C5. A run enters \<open>installFromSource\<close> exactly when the platform is darwin, the
  architecture is arm64, every candidate download failed and \<open>isOldVersion\<close> is false.
  When every candidate fails on another platform or architecture, the run records the
  failure \<open>fetch_message\<close> and ends (with the \<open>TypeError\<close> of line 113, recorded too)
  without a source build. When every candidate fails on darwin and arm64 and the version
  is old, as \<open>v0.8.0\<close> is, the run ends with the failure that the source build is not
  supported, without building.
\<close>

theorem source_build_gate:
  "(enters_source_build (main E I) \<longleftrightarrow>
      process_platform I = ''darwin'' \<and> os_arch I = ''arm64'' \<and> all_candidates_fail E I
      \<and> \<not> isOldVersion (resolved_version E I))
   \<and> (all_candidates_fail E I
        \<and> \<not> (process_platform I = ''darwin'' \<and> os_arch I = ''arm64'') \<longrightarrow>
        main E I = before_acquisition E I @ fst (acquisition E I)
                   @ [SetFailed fetch_message, SetFailed dirname_undefined_message])
   \<and> (all_candidates_fail E I \<and> process_platform I = ''darwin'' \<and> os_arch I = ''arm64''
        \<and> isOldVersion (resolved_version E I) \<longrightarrow>
        main E I = before_acquisition E I @ fst (acquisition E I)
                   @ [SetFailed (old_version_message (resolved_version E I))])
   \<and> isOldVersion ''v0.8.0''"
proof (intro conjI impI)
  show "enters_source_build (main E I) \<longleftrightarrow>
      process_platform I = ''darwin'' \<and> os_arch I = ''arm64'' \<and> all_candidates_fail E I
      \<and> \<not> isOldVersion (resolved_version E I)"
  proof (cases "snd (acquisition E I)")
    case (Some f)
    then have "\<not> all_candidates_fail E I"
      using acquisition_None [of E I] by simp
    with Some show ?thesis
      by (simp add: enters_main after_acquisition_def not_enters_finalize)
  next
    case None
    then have "all_candidates_fail E I"
      using acquisition_None [of E I] by simp
    with None show ?thesis
      by (simp add: enters_main after_acquisition_def enters_installFromSource)
         (simp add: enters_source_build_def commands_simps commands_finalize)
  qed
next
  assume "all_candidates_fail E I \<and> \<not> (process_platform I = ''darwin'' \<and> os_arch I = ''arm64'')"
  then show "main E I = before_acquisition E I @ fst (acquisition E I)
                   @ [SetFailed fetch_message, SetFailed dirname_undefined_message]"
    using acquisition_None [of E I]
    by (auto simp: main_parts after_acquisition_def finalize_def catch_main_def)
next
  assume "all_candidates_fail E I \<and> process_platform I = ''darwin'' \<and> os_arch I = ''arm64''
        \<and> isOldVersion (resolved_version E I)"
  then show "main E I = before_acquisition E I @ fst (acquisition E I)
                   @ [SetFailed (old_version_message (resolved_version E I))]"
    using acquisition_None [of E I]
    by (auto simp: main_parts after_acquisition_def)
next
  show "isOldVersion ''v0.8.0''"
    by (rule isOldVersion_examples)
qed


lemma failures_Nil: "failures [] = []"
  by (simp add: failures_def)

lemma failures_Cons:
  "failures (ev # t) = (case ev of SetFailed m \<Rightarrow> m # failures t | _ \<Rightarrow> failures t)"
  by (cases ev) (simp_all add: failures_def)

lemma failures_append: "failures (s @ t) = failures s @ failures t"
  by (simp add: failures_def)

lemmas failures_simps = failures_Nil failures_Cons failures_append

lemma stub_resolved: "v \<noteq> ''latest'' \<Longrightarrow> resolved_version E (stub_inputs v p a) = v"
  by (simp add: resolved_version_def resolve_version_def stub_inputs_def)

lemma stub_before:
  "v \<noteq> ''latest'' \<Longrightarrow> p = ''linux'' \<or> p = ''darwin'' \<or> p = ''win32'' \<Longrightarrow>
   before_acquisition E (stub_inputs v p a) = []"
  by (auto simp: before_acquisition_def resolve_version_def stub_inputs_def fst_getFPMFilename)

lemma stub_all_fail: "all_candidates_fail stub_env I"
  by (simp add: all_candidates_fail_def fetched_def stub_env_def list_all_iff)

theorem source_build_gate_witness:
  "enters_source_build (main stub_env (stub_inputs ''v0.9.0'' ''darwin'' ''arm64''))
   \<and> failures (main stub_env (stub_inputs ''v0.9.0'' ''linux'' ''x64'')) =
       [fetch_message, dirname_undefined_message]
   \<and> failures (main stub_env (stub_inputs ''v0.8.0'' ''darwin'' ''arm64'')) =
       [old_version_message ''v0.8.0'']"
proof -
  have no_failure: "failures (fst (acquisition stub_env (stub_inputs v p a))) = []"
    if "p = ''linux'' \<or> p = ''darwin''" for v p a
    using that
    by (auto simp: acquisition_def download_release_def compilers_def split_beta Let_def
        stub_env_def stub_inputs_def fst_getFPMFilename failures_simps)
  have plat: "process_platform (stub_inputs v p a) = p" "os_arch (stub_inputs v p a) = a" for v p a
    by (simp_all add: stub_inputs_def)
  show ?thesis
    using source_build_gate [of stub_env "stub_inputs ''v0.9.0'' ''darwin'' ''arm64''"]
      source_build_gate [of stub_env "stub_inputs ''v0.9.0'' ''linux'' ''x64''"]
      source_build_gate [of stub_env "stub_inputs ''v0.8.0'' ''darwin'' ''arm64''"]
    by (simp add: stub_all_fail stub_resolved stub_before plat isOldVersion_examples no_failure
        failures_simps)
qed

subsection \<open>The discovery of the compiler\<close>




















subsection \<open>After the acquisition\<close>


















lemma stub_fields:
  "process_platform (stub_inputs v p a) = p" "os_arch (stub_inputs v p a) = a"
  "fpm_version (stub_inputs v p a) = v" "github_token (stub_inputs v p a) = ''t0ken''"
  "fpm_repository (stub_inputs v p a) = ''https://github.com/fortran-lang/fpm''"
  by (simp_all add: stub_inputs_def)








subsection \<open>The build directory\<close>










subsection \<open>The version \<open>latest\<close>\<close>

lemma downloads_resolve_version: "downloads (fst (resolve_version E token v)) = []"
  by (simp add: resolve_version_def getLatestReleaseVersion_def Let_def downloads_Nil
      downloads_Cons downloads_append split: outcome.splits)

lemma downloads_before_acquisition: "downloads (before_acquisition E I) = []"
  by (simp add: before_acquisition_def downloads_append downloads_resolve_version
      downloads_getFPMFilename)

lemma hd_up_to_first: "up_to_first ok (x # xs) \<noteq> [] \<and> hd (up_to_first ok (x # xs)) = x"
  by (simp add: up_to_first_Cons)

lemma first_download_of_main:
  "downloads (main E I) \<noteq> []
   \<and> hd (downloads (main E I)) =
       fetch_path E I @ snd (getFPMFilename (resolved_version E I) (process_platform I) (os_arch I) '''')"
proof -
  have "downloads (fst (acquisition E I)) =
      up_to_first (fetched E)
        ((fetch_path E I @ snd (getFPMFilename (resolved_version E I) (process_platform I) (os_arch I) ''''))
         # map (\<lambda>c. fetch_path E I @ snd (getFPMFilename (resolved_version E I) (process_platform I) (os_arch I) c))
             compilers)"
    by (simp add: acquisition_def download_release_downloads candidate_urls_def)
  then show ?thesis
    using hd_up_to_first [of "fetched E"
        "fetch_path E I @ snd (getFPMFilename (resolved_version E I) (process_platform I) (os_arch I) '''')"]
    by (simp add: main_parts downloads_append downloads_before_acquisition)
qed

lemma resolve_latest_Throws:
  "octokit_request E token = Throws e \<Longrightarrow>
   resolve_version E token ''latest'' =
     ((if token = ''none'' then [SetFailed token_message] else [])
        @ [Request token, SetFailed query_message], ''latest'')"
  by (simp add: resolve_version_def getLatestReleaseVersion_def)

lemma set_up_to_first: "set (up_to_first ok xs) \<subseteq> set xs"
  using up_to_first_prefix [of ok xs] by (rule set_mono_prefix)

lemma latest_candidates:
  assumes "p = ''linux'' \<or> p = ''darwin'' \<or> p = ''win32''"
    and "url \<in> set (candidate_urls (repo @ ''/releases/download/latest/'') ''latest'' p a cs)"
  shows "prefix (repo @ ''/releases/download/latest/fpm-latest-'' @ os_name p @ ''-''
           @ (if a = ''arm64'' then ''arm64'' else ''x86_64'')) url"
proof -
  from assms(2) obtain c where
    "url = (repo @ ''/releases/download/latest/'') @ snd (getFPMFilename ''latest'' p a c)"
    by (auto simp: candidate_urls_def)
  then show ?thesis
    using assms(1) by (simp add: getFPMFilename_known_platform)
qed

text \<open>
  C10. The requested version is \<open>latest\<close>, and the token is \<open>none\<close> or the release query
  throws; the release index answers no request made with the token \<open>none\<close>. Then \<open>main\<close>
  records a failure (for the query, and for the token when it is \<open>none\<close>) and does not
  stop: the version stays \<open>latest\<close> and the downloads are attempted, the first of them
  \<open>/releases/download/latest/\<close> and the filename of \<open>latest\<close> under the repository. On
  linux, darwin and win32 that filename is \<open>fpm-latest-\<close>, the system and the architecture
  (then \<open>.exe\<close> on win32), and every download of lines 56-83 starts with
  \<open>/releases/download/latest/fpm-latest-\<close>, the system and the architecture.
\<close>

theorem latest_stays_latest:
  assumes "fpm_version I = ''latest''"
    and "query_throws E ''none''"
    and "github_token I = ''none'' \<or> query_throws E (github_token I)"
  shows "query_message \<in> set (failures (main E I))
         \<and> (github_token I = ''none'' \<longrightarrow> token_message \<in> set (failures (main E I)))
         \<and> resolved_version E I = ''latest''
         \<and> fetch_path E I = fpm_repository I @ ''/releases/download/latest/''
         \<and> downloads (main E I) \<noteq> []
         \<and> hd (downloads (main E I)) =
             fpm_repository I @ ''/releases/download/latest/''
             @ snd (getFPMFilename ''latest'' (process_platform I) (os_arch I) '''')
         \<and> (process_platform I \<in> {''linux'', ''darwin'', ''win32''} \<longrightarrow>
              snd (getFPMFilename ''latest'' (process_platform I) (os_arch I) '''') =
                ''fpm-latest-'' @ os_name (process_platform I) @ ''-''
                @ (if os_arch I = ''arm64'' then ''arm64'' else ''x86_64'')
                @ (if process_platform I = ''win32'' then ''.exe'' else [])
              \<and> (\<forall>url \<in> set (downloads (fst (acquisition E I))).
                    prefix (fpm_repository I @ ''/releases/download/latest/fpm-latest-''
                            @ os_name (process_platform I) @ ''-''
                            @ (if os_arch I = ''arm64'' then ''arm64'' else ''x86_64'')) url))"
proof -
  from assms(2,3) have "query_throws E (github_token I)"
    by auto
  then obtain e where throws: "octokit_request E (github_token I) = Throws e"
    by (auto simp: query_throws_def split: outcome.splits)
  with assms(1) have latest: "resolved_version E I = ''latest''"
    by (simp add: resolved_version_def resolve_latest_Throws)
  then have path: "fetch_path E I = fpm_repository I @ ''/releases/download/latest/''"
    by (simp add: fetch_path_def)
  from throws assms(1) have before:
    "fst (resolve_version E (github_token I) (fpm_version I)) =
       (if github_token I = ''none'' then [SetFailed token_message] else [])
       @ [Request (github_token I), SetFailed query_message]"
    by (simp add: resolve_latest_Throws)
  then have "failures (main E I) =
       (if github_token I = ''none'' then [token_message] else []) @ [query_message]
       @ failures (fst (getFPMFilename (resolved_version E I) (process_platform I) (os_arch I) ''''))
       @ failures (fst (acquisition E I)) @ failures (after_acquisition E I)"
    by (simp add: main_parts before_acquisition_def failures_simps)
  then have recorded: "query_message \<in> set (failures (main E I))"
    "github_token I = ''none'' \<longrightarrow> token_message \<in> set (failures (main E I))"
    by simp_all
  have first: "downloads (main E I) \<noteq> []"
    "hd (downloads (main E I)) =
       fpm_repository I @ ''/releases/download/latest/''
       @ snd (getFPMFilename ''latest'' (process_platform I) (os_arch I) '''')"
    using first_download_of_main [of E I] by (simp_all add: path latest)
  have known: "snd (getFPMFilename ''latest'' (process_platform I) (os_arch I) '''') =
        ''fpm-latest-'' @ os_name (process_platform I) @ ''-''
        @ (if os_arch I = ''arm64'' then ''arm64'' else ''x86_64'')
        @ (if process_platform I = ''win32'' then ''.exe'' else [])"
    "\<forall>url \<in> set (downloads (fst (acquisition E I))).
        prefix (fpm_repository I @ ''/releases/download/latest/fpm-latest-''
                @ os_name (process_platform I) @ ''-''
                @ (if os_arch I = ''arm64'' then ''arm64'' else ''x86_64'')) url"
    if p: "process_platform I \<in> {''linux'', ''darwin'', ''win32''}"
  proof -
    from p have p': "process_platform I = ''linux'' \<or> process_platform I = ''darwin''
        \<or> process_platform I = ''win32''"
      by simp
    then show "snd (getFPMFilename ''latest'' (process_platform I) (os_arch I) '''') =
        ''fpm-latest-'' @ os_name (process_platform I) @ ''-''
        @ (if os_arch I = ''arm64'' then ''arm64'' else ''x86_64'')
        @ (if process_platform I = ''win32'' then ''.exe'' else [])"
      by (simp add: getFPMFilename_known_platform)
    have "set (downloads (fst (acquisition E I))) \<subseteq>
        set (candidate_urls (fpm_repository I @ ''/releases/download/latest/'') ''latest''
               (process_platform I) (os_arch I) compilers)"
      using set_up_to_first by (simp add: acquisition_def download_release_downloads path latest)
    then show "\<forall>url \<in> set (downloads (fst (acquisition E I))).
        prefix (fpm_repository I @ ''/releases/download/latest/fpm-latest-''
                @ os_name (process_platform I) @ ''-''
                @ (if os_arch I = ''arm64'' then ''arm64'' else ''x86_64'')) url"
      using latest_candidates [OF p', of _ "fpm_repository I" "os_arch I" compilers]
      by blast
  qed
  show ?thesis
    using recorded latest path first known by blast
qed

lemma latest_without_token_fields:
  "fpm_version latest_without_token = ''latest''" "github_token latest_without_token = ''none''"
  "process_platform latest_without_token = ''linux''" "os_arch latest_without_token = ''x64''"
  "fpm_repository latest_without_token = ''https://github.com/fortran-lang/fpm''"
  by (simp_all add: latest_without_token_def stub_inputs_def)

lemma stub_query_throws: "query_throws stub_env token"
  by (simp add: query_throws_def stub_env_def)

lemma stub_candidates_latest:
  "downloads (fst (acquisition stub_env latest_without_token)) =
     [''https://github.com/fortran-lang/fpm/releases/download/latest/fpm-latest-linux-x86_64'',
      ''https://github.com/fortran-lang/fpm/releases/download/latest/fpm-latest-linux-x86_64-gcc-10'',
      ''https://github.com/fortran-lang/fpm/releases/download/latest/fpm-latest-linux-x86_64-gcc-11'',
      ''https://github.com/fortran-lang/fpm/releases/download/latest/fpm-latest-linux-x86_64-gcc-12'',
      ''https://github.com/fortran-lang/fpm/releases/download/latest/fpm-latest-linux-x86_64-gcc-13'',
      ''https://github.com/fortran-lang/fpm/releases/download/latest/fpm-latest-linux-x86_64-gcc-14'']"
proof -
  have "octokit_request stub_env ''none'' = Throws ''Bad credentials''"
    by (simp add: stub_env_def)
  then have "resolved_version stub_env latest_without_token = ''latest''"
    by (simp add: resolved_version_def latest_without_token_fields resolve_latest_Throws)
  moreover have "\<not> fetched stub_env url" for url
    by (simp add: fetched_def stub_env_def)
  ultimately show ?thesis
    by (simp add: acquisition_def download_release_downloads fetch_path_def
        latest_without_token_fields up_to_first_none candidate_urls_def compilers_def
        getFPMFilename_def)
qed

theorem latest_stays_latest_witness:
  "fpm_version latest_without_token = ''latest''
   \<and> github_token latest_without_token = ''none''
   \<and> query_throws stub_env ''none''
   \<and> failures (fst (resolve_version stub_env ''none'' ''latest'')) = [token_message, query_message]
   \<and> resolved_version stub_env latest_without_token = ''latest''
   \<and> hd (downloads (main stub_env latest_without_token)) =
       ''https://github.com/fortran-lang/fpm/releases/download/latest/fpm-latest-linux-x86_64''
   \<and> prefix ''https://github.com/fortran-lang/fpm/releases/download/latest/fpm-latest-linux-x86_64''
       ''https://github.com/fortran-lang/fpm/releases/download/latest/fpm-latest-linux-x86_64-gcc-14''
   \<and> fpm_version (stub_inputs ''latest'' ''win32'' ''arm64'') = ''latest''
   \<and> query_throws stub_env (github_token (stub_inputs ''latest'' ''win32'' ''arm64''))
   \<and> query_message \<in> set (failures (main stub_env (stub_inputs ''latest'' ''win32'' ''arm64'')))
   \<and> hd (downloads (main stub_env (stub_inputs ''latest'' ''win32'' ''arm64''))) =
       ''https://github.com/fortran-lang/fpm/releases/download/latest/fpm-latest-windows-arm64.exe''"
proof -
  have f: "failures (fst (resolve_version stub_env ''none'' ''latest'')) = [token_message, query_message]"
    by (simp add: resolve_version_def getLatestReleaseVersion_def stub_env_def failures_simps)
  have last: "''https://github.com/fortran-lang/fpm/releases/download/latest/fpm-latest-linux-x86_64-gcc-14''
      \<in> set (downloads (fst (acquisition stub_env latest_without_token)))"
    by (simp add: stub_candidates_latest)
  show ?thesis
    using latest_stays_latest [of latest_without_token stub_env]
      latest_stays_latest [of "stub_inputs ''latest'' ''win32'' ''arm64''" stub_env] last
    by (auto simp: latest_without_token_fields stub_fields stub_query_throws f os_name_def)
qed

end
